theory Spec2Isabelle
  imports Main
begin

section \<open>The preprocessor fragment used by \<open>src/ecomm/protocol/config.hpp\<close>\<close>

text \<open>
  The header consists of object-like macro definitions, \<open>#ifndef\<close> blocks and two
  \<open>static_assert\<close> declarations over integer comparisons.  A translation unit is a list of
  such directives; including the header splices its directives into that list.

  A macro's replacement list is either empty (the include guard) or an integer constant,
  \<open>Num v\<close> for the constant that denotes \<open>v\<close>.  The constants every compiler evaluates
  the same way are those that fit \<open>long long\<close>, at least 64 bits wide: \<open>representable\<close>.
  A wider constant is ill-formed in ISO C++ and compilers differ on it (g++ truncates it
  with a warning); the model gives no account of that, and what is stated about the
  outcome of a check is stated for representable values.
\<close>

type_synonym name = string

datatype body = Empty | Num int

definition representable :: "int \<Rightarrow> bool" where
  "representable v = (- (2 ^ 63) \<le> v \<and> v < 2 ^ 63)"

type_synonym macros = "name \<rightharpoonup> body"

datatype expr = Lit int | Macro name

datatype cond =
    Ge expr expr
  | Lt expr expr
  | Gt expr expr
  | And cond cond

datatype directive =
    Define name body
  | IfNDef name "directive list"
  | StaticAssert cond string

datatype diagnostic =
    StaticAssertFailed string
  | NotAConstantExpression string
  | MacroRedefined name

text \<open>
  A failed \<open>static_assert\<close> and a condition that is no constant expression are errors.
  A macro redefinition is ill-formed in ISO C++ ([cpp.replace]), but compilers accept it
  with a warning and go on.
\<close>

datatype severity = Warning | Error

fun severity_of :: "diagnostic \<Rightarrow> severity" where
  "severity_of (StaticAssertFailed msg) = Error"
| "severity_of (NotAConstantExpression msg) = Error"
| "severity_of (MacroRedefined x) = Warning"

record pp_state =
  macros :: macros
  diags :: "diagnostic list"

text \<open>
  An identifier inside a \<open>static_assert\<close> condition is replaced by its macro body.  An
  undefined name or an empty body leaves no integer constant expression behind.
\<close>

fun eval_expr :: "macros \<Rightarrow> expr \<Rightarrow> int option" where
  "eval_expr m (Lit n) = Some n"
| "eval_expr m (Macro x) = (case m x of Some (Num v) \<Rightarrow> Some v | Some Empty \<Rightarrow> None | None \<Rightarrow> None)"

fun rel :: "(int \<Rightarrow> int \<Rightarrow> bool) \<Rightarrow> int option \<Rightarrow> int option \<Rightarrow> bool option" where
  "rel p (Some a) (Some b) = Some (p a b)"
| "rel p None y = None"
| "rel p (Some a) None = None"

fun conj_opt :: "bool option \<Rightarrow> bool option \<Rightarrow> bool option" where
  "conj_opt (Some a) (Some b) = Some (a \<and> b)"
| "conj_opt None y = None"
| "conj_opt (Some a) None = None"

fun eval_cond :: "macros \<Rightarrow> cond \<Rightarrow> bool option" where
  "eval_cond m (Ge a b) = rel (\<lambda>x y. y \<le> x) (eval_expr m a) (eval_expr m b)"
| "eval_cond m (Lt a b) = rel (\<lambda>x y. x < y) (eval_expr m a) (eval_expr m b)"
| "eval_cond m (Gt a b) = rel (\<lambda>x y. y < x) (eval_expr m a) (eval_expr m b)"
| "eval_cond m (And c d) = conj_opt (eval_cond m c) (eval_cond m d)"

definition report :: "diagnostic \<Rightarrow> pp_state \<Rightarrow> pp_state" where
  "report d s = s\<lparr>diags := diags s @ [d]\<rparr>"

text \<open>
  \<open>#define\<close> of a name that is already defined with the same replacement list is
  permitted; with a different replacement list it is diagnosed as a redefinition, and
  the new definition is the one in force afterwards.
  A failed \<open>static_assert\<close> is diagnosed with its message and processing goes on.
\<close>

fun exec :: "directive \<Rightarrow> pp_state \<Rightarrow> pp_state"
  and run :: "directive list \<Rightarrow> pp_state \<Rightarrow> pp_state" where
  "exec (Define x b) s =
     (case macros s x of
        None \<Rightarrow> s\<lparr>macros := (macros s)(x \<mapsto> b)\<rparr>
      | Some b' \<Rightarrow>
          if b' = b then s
          else report (MacroRedefined x) (s\<lparr>macros := (macros s)(x \<mapsto> b)\<rparr>))"
| "exec (IfNDef x ds) s = (if macros s x = None then run ds s else s)"
| "exec (StaticAssert c msg) s =
     (case eval_cond (macros s) c of
        Some True \<Rightarrow> s
      | Some False \<Rightarrow> report (StaticAssertFailed msg) s
      | None \<Rightarrow> report (NotAConstantExpression msg) s)"
| "run [] s = s"
| "run (d # ds) s = run ds (exec d s)"

section \<open>The header\<close>

definition ECOMM_PROTOCOL_CONFIG_HPP :: name where
  "ECOMM_PROTOCOL_CONFIG_HPP = ''ECOMM_PROTOCOL_CONFIG_HPP_''"

definition ECOMM_PROTOCOL_VERSION :: name where
  "ECOMM_PROTOCOL_VERSION = ''ECOMM_PROTOCOL_VERSION''"

definition ECOMM_BOARD_ID :: name where
  "ECOMM_BOARD_ID = ''ECOMM_BOARD_ID''"

definition ECOMM_DEVICE_N :: name where
  "ECOMM_DEVICE_N = ''ECOMM_DEVICE_N''"

definition version_msg :: string where
  "version_msg = ''ECOMM_PROTOCOL_VERSION must be in range [0, 3]''"

definition device_msg :: string where
  "device_msg = ''ECOMM_DEVICE_N must be in range [1, 255]''"

text \<open>Line 34: \<open>static_assert(ECOMM_PROTOCOL_VERSION >= 0 and ECOMM_PROTOCOL_VERSION < 4, ...)\<close>.\<close>

definition version_assert :: directive where
  "version_assert =
     StaticAssert (And (Ge (Macro ECOMM_PROTOCOL_VERSION) (Lit 0)) (Lt (Macro ECOMM_PROTOCOL_VERSION) (Lit 4)))
       version_msg"

text \<open>Line 43: \<open>static_assert(ECOMM_DEVICE_N > 0 and ECOMM_DEVICE_N < 256, ...)\<close>.\<close>

definition device_assert :: directive where
  "device_assert =
     StaticAssert (And (Gt (Macro ECOMM_DEVICE_N) (Lit 0)) (Lt (Macro ECOMM_DEVICE_N) (Lit 256)))
       device_msg"

text \<open>Lines 33 to 43, the part between the include guard's \<open>#define\<close> and its \<open>#endif\<close>.\<close>

definition config_body :: "directive list" where
  "config_body =
     [ Define ECOMM_PROTOCOL_VERSION (Num 0),
       version_assert,
       IfNDef ECOMM_BOARD_ID [Define ECOMM_BOARD_ID (Num 0)],
       IfNDef ECOMM_DEVICE_N [Define ECOMM_DEVICE_N (Num 2)],
       device_assert ]"

text \<open>Lines 30 to 46, the whole header.\<close>

definition config_hpp :: "directive list" where
  "config_hpp = [ IfNDef ECOMM_PROTOCOL_CONFIG_HPP (Define ECOMM_PROTOCOL_CONFIG_HPP Empty # config_body) ]"

section \<open>Builds\<close>

text \<open>
  A build starts from the macros the consumer has supplied (compiler flags or earlier
  definitions) and no diagnostics.  It fails when an error was diagnosed; otherwise it
  produces an artifact, here the final macro table, warnings or not.
\<close>

definition start :: "macros \<Rightarrow> pp_state" where
  "start m = \<lparr>macros = m, diags = []\<rparr>"

definition build :: "macros \<Rightarrow> pp_state" where
  "build m = run config_hpp (start m)"

definition errors :: "pp_state \<Rightarrow> diagnostic list" where
  "errors s = filter (\<lambda>d. severity_of d = Error) (diags s)"

definition build_result :: "pp_state \<Rightarrow> diagnostic list + macros" where
  "build_result s = (if errors s = [] then Inr (macros s) else Inl (diags s))"

text \<open>
  The state in which the check of line 43 is evaluated: the header's directives up to and
  including line 42 have been processed.
\<close>

definition before_device_check :: "macros \<Rightarrow> pp_state" where
  "before_device_check m = run (Define ECOMM_PROTOCOL_CONFIG_HPP Empty # butlast config_body) (start m)"

text \<open>
  The header with another constant on line 33, all other lines as they are.  The header as
  it stands is the instance 0.  The protocol version has no override path, so this is the
  only way the check of line 34 meets a value other than 0.
\<close>

definition config_body_with :: "int \<Rightarrow> directive list" where
  "config_body_with pv = Define ECOMM_PROTOCOL_VERSION (Num pv) # tl config_body"

definition config_hpp_with :: "int \<Rightarrow> directive list" where
  "config_hpp_with pv =
     [ IfNDef ECOMM_PROTOCOL_CONFIG_HPP (Define ECOMM_PROTOCOL_CONFIG_HPP Empty # config_body_with pv) ]"

definition build_with :: "int \<Rightarrow> macros \<Rightarrow> pp_state" where
  "build_with pv m = run (config_hpp_with pv) (start m)"

section \<open>Basic facts\<close>

lemma names_distinct:
  "ECOMM_PROTOCOL_CONFIG_HPP \<noteq> ECOMM_PROTOCOL_VERSION" "ECOMM_PROTOCOL_CONFIG_HPP \<noteq> ECOMM_BOARD_ID" "ECOMM_PROTOCOL_CONFIG_HPP \<noteq> ECOMM_DEVICE_N"
  "ECOMM_PROTOCOL_VERSION \<noteq> ECOMM_PROTOCOL_CONFIG_HPP" "ECOMM_PROTOCOL_VERSION \<noteq> ECOMM_BOARD_ID" "ECOMM_PROTOCOL_VERSION \<noteq> ECOMM_DEVICE_N"
  "ECOMM_BOARD_ID \<noteq> ECOMM_PROTOCOL_CONFIG_HPP" "ECOMM_BOARD_ID \<noteq> ECOMM_PROTOCOL_VERSION" "ECOMM_BOARD_ID \<noteq> ECOMM_DEVICE_N"
  "ECOMM_DEVICE_N \<noteq> ECOMM_PROTOCOL_CONFIG_HPP" "ECOMM_DEVICE_N \<noteq> ECOMM_PROTOCOL_VERSION" "ECOMM_DEVICE_N \<noteq> ECOMM_BOARD_ID"
  by (simp_all add: ECOMM_PROTOCOL_CONFIG_HPP_def ECOMM_PROTOCOL_VERSION_def ECOMM_BOARD_ID_def ECOMM_DEVICE_N_def)

lemma msgs_distinct: "version_msg \<noteq> device_msg" "device_msg \<noteq> version_msg"
  by (simp_all add: version_msg_def device_msg_def)

lemma run_append: "run (ds @ es) s = run es (run ds s)"
  by (induction ds arbitrary: s) simp_all

lemmas header_defs = config_hpp_def config_body_def version_assert_def device_assert_def

text \<open>With the include guard already defined, the header contributes nothing.\<close>

lemma build_guarded: "m ECOMM_PROTOCOL_CONFIG_HPP \<noteq> None \<Longrightarrow> build m = start m"
  by (auto simp add: build_def start_def config_hpp_def)

text \<open>Otherwise the macro table and the diagnostics after the header are as follows.\<close>

lemma build_macros:
  assumes "m ECOMM_PROTOCOL_CONFIG_HPP = None"
  shows "macros (build m) =
    m(ECOMM_PROTOCOL_CONFIG_HPP \<mapsto> Empty, ECOMM_PROTOCOL_VERSION \<mapsto> Num 0,
      ECOMM_BOARD_ID \<mapsto> (case m ECOMM_BOARD_ID of None \<Rightarrow> Num 0 | Some b \<Rightarrow> b),
      ECOMM_DEVICE_N \<mapsto> (case m ECOMM_DEVICE_N of None \<Rightarrow> Num 2 | Some b \<Rightarrow> b))"
  using assms
  by (auto simp add: build_def start_def header_defs names_distinct report_def fun_upd_twist
      split: option.splits body.splits bool.splits)

lemma build_diags:
  assumes "m ECOMM_PROTOCOL_CONFIG_HPP = None"
  shows "diags (build m) =
    (if m ECOMM_PROTOCOL_VERSION = None \<or> m ECOMM_PROTOCOL_VERSION = Some (Num 0) then []
     else [MacroRedefined ECOMM_PROTOCOL_VERSION]) @
    (case m ECOMM_DEVICE_N of
       None \<Rightarrow> []
     | Some Empty \<Rightarrow> [NotAConstantExpression device_msg]
     | Some (Num v) \<Rightarrow> if 0 < v \<and> v < 256 then [] else [StaticAssertFailed device_msg])"
  using assms
  by (auto simp add: build_def start_def header_defs names_distinct report_def
      split: option.splits body.splits bool.splits)

text \<open>Diagnostics only accumulate; they never steer the processing.\<close>

lemma exec_run_diags:
  "exec d (s\<lparr>diags := ds @ diags s\<rparr>) = (exec d s)\<lparr>diags := ds @ diags (exec d s)\<rparr>"
  "run l (s\<lparr>diags := ds @ diags s\<rparr>) = (run l s)\<lparr>diags := ds @ diags (run l s)\<rparr>"
  by (induction d s and l s rule: exec_run.induct)
     (auto simp add: report_def split: option.splits bool.splits)

lemma run_from_state:
  "run l s = (run l (start (macros s)))\<lparr>diags := diags s @ diags (run l (start (macros s)))\<rparr>"
proof -
  have "s = (start (macros s))\<lparr>diags := diags s @ diags (start (macros s))\<rparr>"
    by (simp add: start_def)
  then have "run l s = run l ((start (macros s))\<lparr>diags := diags s @ diags (start (macros s))\<rparr>)"
    by simp
  then show ?thesis
    by (simp only: exec_run_diags)
qed

lemma include_from_state:
  "run config_hpp s = (build (macros s))\<lparr>diags := diags s @ diags (build (macros s))\<rparr>"
  unfolding build_def by (rule run_from_state)

text \<open>The fragment has no \<open>#undef\<close>: a defined macro stays defined.\<close>

lemma defined_preserved:
  "macros s x \<noteq> None \<Longrightarrow> macros (exec d s) x \<noteq> None"
  "macros s x \<noteq> None \<Longrightarrow> macros (run l s) x \<noteq> None"
  by (induction d s and l s rule: exec_run.induct)
     (auto simp add: report_def split: option.splits bool.splits)

lemma guard_defined_after: "macros (run config_hpp s) ECOMM_PROTOCOL_CONFIG_HPP \<noteq> None"
  by (cases "macros s ECOMM_PROTOCOL_CONFIG_HPP") (auto simp add: include_from_state build_macros build_guarded start_def names_distinct)

lemma include_guarded: "macros s ECOMM_PROTOCOL_CONFIG_HPP \<noteq> None \<Longrightarrow> run config_hpp s = s"
  by (auto simp add: config_hpp_def)

text \<open>The device-count check is the header's last step and leaves the macros alone.\<close>

lemma build_split:
  "m ECOMM_PROTOCOL_CONFIG_HPP = None \<Longrightarrow> build m = exec device_assert (before_device_check m)"
  by (simp add: build_def before_device_check_def start_def config_hpp_def config_body_def)

lemma before_device_check_macros:
  "m ECOMM_PROTOCOL_CONFIG_HPP = None \<Longrightarrow> macros (before_device_check m) = macros (build m)"
  by (simp add: build_split device_assert_def report_def split: option.splits bool.splits)

text \<open>Errors decide the result of a build; a diagnostic-free build has none.\<close>

lemma errors_empty: "diags s = [] \<Longrightarrow> errors s = []"
  by (simp add: errors_def)

lemma errors_nonempty:
  assumes "d \<in> set (diags s)" and "severity_of d = Error"
  shows "errors s \<noteq> []"
proof -
  from assms have "d \<in> set (errors s)"
    by (simp add: errors_def)
  then show ?thesis
    by (cases "errors s") simp_all
qed

lemma build_errors:
  assumes "m ECOMM_PROTOCOL_CONFIG_HPP = None"
  shows "errors (build m) =
    (case m ECOMM_DEVICE_N of
       None \<Rightarrow> []
     | Some Empty \<Rightarrow> [NotAConstantExpression device_msg]
     | Some (Num v) \<Rightarrow> if 0 < v \<and> v < 256 then [] else [StaticAssertFailed device_msg])"
  using assms by (simp add: errors_def build_diags split: option.splits body.splits)

text \<open>The header with \<open>pv\<close> on line 33.\<close>

lemma build_with_0: "build_with 0 m = build m"
  by (simp add: build_with_def build_def config_hpp_with_def config_body_with_def
      config_hpp_def config_body_def)

lemma exec_version_assert:
  assumes "macros s ECOMM_PROTOCOL_VERSION = Some (Num pv)"
  shows "exec version_assert s
    = (if 0 \<le> pv \<and> pv < 4 then s else report (StaticAssertFailed version_msg) s)"
  using assms by (auto simp add: version_assert_def)

lemma run_lines_36_to_43:
  "macros (run (drop 2 config_body) s) ECOMM_PROTOCOL_VERSION = macros s ECOMM_PROTOCOL_VERSION"
  "diags (run (drop 2 config_body) s) = diags s @
    (case macros s ECOMM_DEVICE_N of
       None \<Rightarrow> []
     | Some Empty \<Rightarrow> [NotAConstantExpression device_msg]
     | Some (Num v) \<Rightarrow> if 0 < v \<and> v < 256 then [] else [StaticAssertFailed device_msg])"
  by (auto simp add: config_body_def device_assert_def names_distinct report_def
      split: option.splits body.splits bool.splits)

lemma lines_34_to_43: "tl config_body = version_assert # drop 2 config_body"
  by (simp add: config_body_def)

lemma build_with_unfold:
  assumes "m ECOMM_PROTOCOL_CONFIG_HPP = None"
  shows "build_with pv m =
    run (drop 2 config_body)
      (exec version_assert
        (exec (Define ECOMM_PROTOCOL_VERSION (Num pv))
          (start (m(ECOMM_PROTOCOL_CONFIG_HPP \<mapsto> Empty)))))"
proof -
  have a: "exec (IfNDef ECOMM_PROTOCOL_CONFIG_HPP ds) \<lparr>macros = m, diags = []\<rparr>
      = run ds \<lparr>macros = m, diags = []\<rparr>" for ds
    using assms by simp
  have b: "exec (Define ECOMM_PROTOCOL_CONFIG_HPP Empty) \<lparr>macros = m, diags = []\<rparr>
      = \<lparr>macros = m(ECOMM_PROTOCOL_CONFIG_HPP \<mapsto> Empty), diags = []\<rparr>"
    using assms by simp
  show ?thesis
    by (simp only: build_with_def start_def config_hpp_with_def config_body_with_def
        lines_34_to_43 run.simps a b)
qed

lemma after_line_33:
  assumes "m ECOMM_PROTOCOL_CONFIG_HPP = None"
  shows "macros (exec (Define ECOMM_PROTOCOL_VERSION (Num pv))
            (start (m(ECOMM_PROTOCOL_CONFIG_HPP \<mapsto> Empty))))
          = m(ECOMM_PROTOCOL_CONFIG_HPP \<mapsto> Empty, ECOMM_PROTOCOL_VERSION \<mapsto> Num pv)"
    and "diags (exec (Define ECOMM_PROTOCOL_VERSION (Num pv))
            (start (m(ECOMM_PROTOCOL_CONFIG_HPP \<mapsto> Empty))))
          = (if m ECOMM_PROTOCOL_VERSION = None \<or> m ECOMM_PROTOCOL_VERSION = Some (Num pv) then []
             else [MacroRedefined ECOMM_PROTOCOL_VERSION])"
  by (auto simp add: start_def names_distinct report_def split: option.splits)

lemma build_with_macros:
  assumes "m ECOMM_PROTOCOL_CONFIG_HPP = None"
  shows "macros (build_with pv m) ECOMM_PROTOCOL_VERSION = Some (Num pv)"
proof -
  let ?s = "exec (Define ECOMM_PROTOCOL_VERSION (Num pv))
      (start (m(ECOMM_PROTOCOL_CONFIG_HPP \<mapsto> Empty)))"
  have v: "macros ?s ECOMM_PROTOCOL_VERSION = Some (Num pv)"
    using assms by (simp add: after_line_33 del: exec.simps)
  have "macros (exec version_assert ?s) = macros ?s"
    by (simp only: exec_version_assert [OF v]) (simp add: report_def)
  with v show ?thesis
    by (simp only: build_with_unfold [where m = m and pv = pv, OF assms] run_lines_36_to_43)
qed

lemma build_with_diags:
  assumes "m ECOMM_PROTOCOL_CONFIG_HPP = None"
  shows "diags (build_with pv m) =
    (if m ECOMM_PROTOCOL_VERSION = None \<or> m ECOMM_PROTOCOL_VERSION = Some (Num pv) then []
     else [MacroRedefined ECOMM_PROTOCOL_VERSION]) @
    (if 0 \<le> pv \<and> pv < 4 then [] else [StaticAssertFailed version_msg]) @
    (case m ECOMM_DEVICE_N of
       None \<Rightarrow> []
     | Some Empty \<Rightarrow> [NotAConstantExpression device_msg]
     | Some (Num v) \<Rightarrow> if 0 < v \<and> v < 256 then [] else [StaticAssertFailed device_msg])"
proof -
  let ?s = "exec (Define ECOMM_PROTOCOL_VERSION (Num pv))
      (start (m(ECOMM_PROTOCOL_CONFIG_HPP \<mapsto> Empty)))"
  have v: "macros ?s ECOMM_PROTOCOL_VERSION = Some (Num pv)"
    using assms by (simp add: after_line_33 del: exec.simps)
  have m: "macros (exec version_assert ?s) = macros ?s"
    by (simp only: exec_version_assert [OF v]) (simp add: report_def)
  have n: "macros ?s ECOMM_DEVICE_N = m ECOMM_DEVICE_N"
    using assms by (simp add: after_line_33 names_distinct del: exec.simps)
  have r: "diags ?s = (if m ECOMM_PROTOCOL_VERSION = None \<or> m ECOMM_PROTOCOL_VERSION = Some (Num pv)
      then [] else [MacroRedefined ECOMM_PROTOCOL_VERSION])"
    using assms by (rule after_line_33(2))
  have d: "diags (exec version_assert ?s) = diags ?s @
      (if 0 \<le> pv \<and> pv < 4 then [] else [StaticAssertFailed version_msg])"
    by (simp only: exec_version_assert [OF v]) (simp add: report_def)
  show ?thesis
    by (simp only: build_with_unfold [where m = m and pv = pv, OF assms] run_lines_36_to_43 m n d r) simp
qed

section \<open>Device count\<close>

text \<open>
  C1. For every override value \<open>v\<close> of the device count with \<open>1 \<le> v \<le> 255\<close>, supplied
  before the header is processed, the build succeeds and the resolved \<open>ECOMM_DEVICE_N\<close> is
  exactly \<open>v\<close>, neither clamped nor coerced.  The header is processed (its guard is not
  yet defined) and the consumer has not pre-defined a conflicting protocol version.
\<close>

theorem device_override_accepted:
  assumes "1 \<le> v" and "v \<le> 255"
    and "m ECOMM_PROTOCOL_CONFIG_HPP = None"
    and "m ECOMM_PROTOCOL_VERSION = None \<or> m ECOMM_PROTOCOL_VERSION = Some (Num 0)"
  shows "diags (build (m(ECOMM_DEVICE_N \<mapsto> Num v))) = []
     \<and> macros (build (m(ECOMM_DEVICE_N \<mapsto> Num v))) ECOMM_DEVICE_N = Some (Num v)
     \<and> build_result (build (m(ECOMM_DEVICE_N \<mapsto> Num v))) = Inr (macros (build (m(ECOMM_DEVICE_N \<mapsto> Num v))))"
proof -
  let ?m = "m(ECOMM_DEVICE_N \<mapsto> Num v)"
  have g: "?m ECOMM_PROTOCOL_CONFIG_HPP = None"
    using assms(3) by (simp add: names_distinct)
  have d: "diags (build ?m) = []"
    using assms(1,2,4) g by (auto simp add: build_diags names_distinct)
  have r: "macros (build ?m) ECOMM_DEVICE_N = Some (Num v)"
    using g by (simp add: build_macros names_distinct)
  from d r show ?thesis
    by (simp add: build_result_def errors_empty)
qed

text \<open>The override 200, with nothing else supplied.\<close>

theorem device_override_accepted_witness:
  "diags (build [ECOMM_DEVICE_N \<mapsto> Num 200]) = []
   \<and> macros (build [ECOMM_DEVICE_N \<mapsto> Num 200]) ECOMM_DEVICE_N = Some (Num 200)
   \<and> build_result (build [ECOMM_DEVICE_N \<mapsto> Num 200]) = Inr (macros (build [ECOMM_DEVICE_N \<mapsto> Num 200]))"
  using device_override_accepted [of 200 Map.empty] by simp

text \<open>
  C2. For every override value \<open>v\<close> of the device count outside \<open>[1, 255]\<close>, among the
  values an integer constant can represent, the build fails: the diagnostics contain the
  failed assertion, an error, whose message names \<open>ECOMM_DEVICE_N\<close> and the range
  \<open>[1, 255]\<close>, and the build yields its diagnostics instead of an artifact.
\<close>

theorem device_override_rejected:
  assumes "v < 1 \<or> 255 < v" and "representable v" and "m ECOMM_PROTOCOL_CONFIG_HPP = None"
  shows "StaticAssertFailed ''ECOMM_DEVICE_N must be in range [1, 255]''
           \<in> set (diags (build (m(ECOMM_DEVICE_N \<mapsto> Num v))))
     \<and> build_result (build (m(ECOMM_DEVICE_N \<mapsto> Num v))) = Inl (diags (build (m(ECOMM_DEVICE_N \<mapsto> Num v))))"
proof -
  let ?m = "m(ECOMM_DEVICE_N \<mapsto> Num v)"
  have g: "?m ECOMM_PROTOCOL_CONFIG_HPP = None"
    using assms(3) by (simp add: names_distinct)
  have d: "StaticAssertFailed device_msg \<in> set (diags (build ?m))"
    using assms(1) g by (auto simp add: build_diags names_distinct)
  then have "errors (build ?m) \<noteq> []"
    by (rule errors_nonempty) simp
  with d show ?thesis
    by (simp add: build_result_def device_msg_def)
qed

text \<open>The overrides 0, 256 and -1.\<close>

theorem device_override_rejected_witness:
  "build_result (build [ECOMM_DEVICE_N \<mapsto> Num 0]) = Inl [StaticAssertFailed device_msg]
   \<and> build_result (build [ECOMM_DEVICE_N \<mapsto> Num 256]) = Inl [StaticAssertFailed device_msg]
   \<and> build_result (build [ECOMM_DEVICE_N \<mapsto> Num (- 1)]) = Inl [StaticAssertFailed device_msg]"
  using device_override_rejected [of 0 Map.empty]
    device_override_rejected [of 256 Map.empty]
    device_override_rejected [of "- 1" Map.empty]
  by (simp add: build_diags names_distinct representable_def)

text \<open>
  C5. Without an override of the device count the resolved \<open>ECOMM_DEVICE_N\<close> is exactly 2
  and the build succeeds with it: for the build with no overrides at all, and for every
  build that leaves the device count alone, where the range check never fires and nothing
  is diagnosed unless a conflicting protocol version was pre-defined.
\<close>

theorem device_default:
  "diags (build Map.empty) = []
   \<and> macros (build Map.empty) ECOMM_DEVICE_N = Some (Num 2)
   \<and> (m ECOMM_PROTOCOL_CONFIG_HPP = None \<longrightarrow> m ECOMM_DEVICE_N = None \<longrightarrow>
        macros (build m) ECOMM_DEVICE_N = Some (Num 2)
        \<and> StaticAssertFailed device_msg \<notin> set (diags (build m))
        \<and> ((m ECOMM_PROTOCOL_VERSION = None \<or> m ECOMM_PROTOCOL_VERSION = Some (Num 0)) \<longrightarrow> diags (build m) = []))"
  by (auto simp add: build_diags build_macros)

text \<open>A build that overrides the board identifier only.\<close>

theorem device_default_witness:
  "macros (build [ECOMM_BOARD_ID \<mapsto> Num 7]) ECOMM_DEVICE_N = Some (Num 2)
   \<and> diags (build [ECOMM_BOARD_ID \<mapsto> Num 7]) = []"
  using device_default [of "[ECOMM_BOARD_ID \<mapsto> Num 7]"] by (simp add: names_distinct)

section \<open>Protocol version\<close>

text \<open>
  C3. In every successful build that processes the header the resolved
  \<open>ECOMM_PROTOCOL_VERSION\<close> lies in \<open>[0, 3]\<close>.  With a representable value outside
  \<open>[0, 3]\<close> on line 33 the header does not build, whatever the consumer supplies: the
  check of line 34 is diagnosed, an error, with its message.  With a value inside
  \<open>[0, 3]\<close> the check passes and that value is the resolved one.  Every failure is a
  diagnostic of the build: the header leaves nothing to run time.
\<close>

theorem protocol_version_range:
  assumes "m ECOMM_PROTOCOL_CONFIG_HPP = None"
  shows "(build_result (build m) = Inr t \<longrightarrow>
        (\<exists>v. t ECOMM_PROTOCOL_VERSION = Some (Num v) \<and> 0 \<le> v \<and> v \<le> 3))
     \<and> build_with 0 m = build m
     \<and> (representable v \<longrightarrow> v < 0 \<or> 3 < v \<longrightarrow>
          StaticAssertFailed ''ECOMM_PROTOCOL_VERSION must be in range [0, 3]''
            \<in> set (diags (build_with v m))
          \<and> build_result (build_with v m) = Inl (diags (build_with v m)))
     \<and> (0 \<le> v \<and> v \<le> 3 \<longrightarrow>
          StaticAssertFailed version_msg \<notin> set (diags (build_with v m))
          \<and> macros (build_with v m) ECOMM_PROTOCOL_VERSION = Some (Num v))"
proof -
  have a: "macros (build m) ECOMM_PROTOCOL_VERSION = Some (Num 0)"
    using assms by (simp add: build_macros names_distinct)
  have a': "t = macros (build m)" if "build_result (build m) = Inr t"
    using that by (simp add: build_result_def split: if_splits)
  have b: "StaticAssertFailed version_msg \<in> set (diags (build_with v m))" if "v < 0 \<or> 3 < v"
    using that assms by (auto simp add: build_with_diags)
  have b': "build_result (build_with v m) = Inl (diags (build_with v m))" if "v < 0 \<or> 3 < v"
  proof -
    have "errors (build_with v m) \<noteq> []"
      using b [OF that] by (rule errors_nonempty) simp
    then show ?thesis
      by (simp add: build_result_def)
  qed
  have c: "StaticAssertFailed version_msg \<notin> set (diags (build_with v m))" if "0 \<le> v \<and> v \<le> 3"
    using that assms
    by (auto simp add: build_with_diags msgs_distinct split: option.splits body.splits)
  have d: "macros (build_with v m) ECOMM_PROTOCOL_VERSION = Some (Num v)"
    using assms by (rule build_with_macros)
  have e: "build_result (build m) = Inr t \<longrightarrow>
      (\<exists>v. t ECOMM_PROTOCOL_VERSION = Some (Num v) \<and> 0 \<le> v \<and> v \<le> 3)"
    using a a' by auto
  from e b b' c d show ?thesis
    by (simp add: build_with_0 version_msg_def)
qed

text \<open>The header as it stands, and with 4, -1 and 3 on line 33.\<close>

theorem protocol_version_range_witness:
  "macros (build Map.empty) ECOMM_PROTOCOL_VERSION = Some (Num 0)
   \<and> build_result (build_with 4 Map.empty) = Inl [StaticAssertFailed version_msg]
   \<and> build_result (build_with (- 1) Map.empty) = Inl [StaticAssertFailed version_msg]
   \<and> StaticAssertFailed version_msg \<notin> set (diags (build_with 3 Map.empty))
   \<and> macros (build_with 3 Map.empty) ECOMM_PROTOCOL_VERSION = Some (Num 3)"
  using protocol_version_range [where m = Map.empty and v = 4 and t = "macros (build Map.empty)"]
    protocol_version_range [where m = Map.empty and v = "- 1" and t = "macros (build Map.empty)"]
    protocol_version_range [where m = Map.empty and v = 3 and t = "macros (build Map.empty)"]
  by (simp add: build_with_diags build_macros names_distinct representable_def)

section \<open>Board identifier\<close>

text \<open>
  C4. Without an override the resolved \<open>ECOMM_BOARD_ID\<close> is exactly 0.  With an override
  \<open>v\<close>, any integer, negative ones included, it is exactly \<open>v\<close>.  No value is rejected:
  the diagnostics of a build are those of the same build without the override, and a build
  that overrides the board identifier only succeeds.
\<close>

theorem board_id_resolution:
  "macros (build Map.empty) ECOMM_BOARD_ID = Some (Num 0)
   \<and> (m ECOMM_PROTOCOL_CONFIG_HPP = None \<longrightarrow> m ECOMM_BOARD_ID = None \<longrightarrow> macros (build m) ECOMM_BOARD_ID = Some (Num 0))
   \<and> macros (build (m(ECOMM_BOARD_ID \<mapsto> Num v))) ECOMM_BOARD_ID = Some (Num v)
   \<and> diags (build (m(ECOMM_BOARD_ID \<mapsto> Num v))) = diags (build (m(ECOMM_BOARD_ID := None)))
   \<and> build_result (build [ECOMM_BOARD_ID \<mapsto> Num v]) = Inr (macros (build [ECOMM_BOARD_ID \<mapsto> Num v]))"
proof -
  have a: "macros (build (m(ECOMM_BOARD_ID \<mapsto> Num v))) ECOMM_BOARD_ID = Some (Num v)" for m
    by (cases "m ECOMM_PROTOCOL_CONFIG_HPP") (simp_all add: build_macros build_guarded names_distinct start_def)
  have b: "diags (build (m(ECOMM_BOARD_ID \<mapsto> Num v))) = diags (build (m(ECOMM_BOARD_ID := None)))"
    by (cases "m ECOMM_PROTOCOL_CONFIG_HPP") (simp_all add: build_diags build_guarded names_distinct start_def)
  have c: "diags (build [ECOMM_BOARD_ID \<mapsto> Num v]) = []"
    by (simp add: build_diags names_distinct)
  show ?thesis
    using a b c by (simp add: build_macros build_result_def errors_empty names_distinct)
qed

text \<open>The default next to another override, and the overrides 42 and -5.\<close>

theorem board_id_resolution_witness:
  "macros (build [ECOMM_DEVICE_N \<mapsto> Num 9]) ECOMM_BOARD_ID = Some (Num 0)
   \<and> macros (build [ECOMM_BOARD_ID \<mapsto> Num 42]) ECOMM_BOARD_ID = Some (Num 42)
   \<and> macros (build [ECOMM_BOARD_ID \<mapsto> Num (- 5)]) ECOMM_BOARD_ID = Some (Num (- 5))
   \<and> diags (build [ECOMM_BOARD_ID \<mapsto> Num (- 5)]) = []"
  using board_id_resolution [of "[ECOMM_DEVICE_N \<mapsto> Num 9]" 42]
    board_id_resolution [of Map.empty 42]
    board_id_resolution [of Map.empty "- 5"]
  by (simp add: names_distinct build_diags)

section \<open>Order of resolution and validation\<close>

text \<open>
  C6. The device-count check is the last step of the header and runs in a state where
  \<open>ECOMM_DEVICE_N\<close> already has its final value: the override when one was supplied, 2
  otherwise.  So a representable override outside the range fails although the default
  is legal, and the default is checked only when there is no override.
\<close>

theorem validation_after_resolution:
  assumes "m ECOMM_PROTOCOL_CONFIG_HPP = None"
  shows "build m = exec device_assert (before_device_check m)
     \<and> macros (before_device_check m) ECOMM_DEVICE_N = macros (build m) ECOMM_DEVICE_N
     \<and> macros (build m) ECOMM_DEVICE_N = Some (case m ECOMM_DEVICE_N of None \<Rightarrow> Num 2 | Some b \<Rightarrow> b)
     \<and> (m ECOMM_DEVICE_N = None \<longrightarrow> StaticAssertFailed device_msg \<notin> set (diags (build m)))
     \<and> (m ECOMM_DEVICE_N = Some (Num v) \<longrightarrow> representable v \<longrightarrow>
          (StaticAssertFailed device_msg \<in> set (diags (build m))) = (v \<le> 0 \<or> 256 \<le> v))"
  using assms
  by (auto simp add: build_split [symmetric] before_device_check_macros build_macros build_diags)

text \<open>The override 300 is rejected; with no override the default 2 is checked.\<close>

theorem validation_after_resolution_witness:
  "macros (before_device_check [ECOMM_DEVICE_N \<mapsto> Num 300]) ECOMM_DEVICE_N = Some (Num 300)
   \<and> StaticAssertFailed device_msg \<in> set (diags (build [ECOMM_DEVICE_N \<mapsto> Num 300]))
   \<and> macros (before_device_check Map.empty) ECOMM_DEVICE_N = Some (Num 2)
   \<and> StaticAssertFailed device_msg \<notin> set (diags (build Map.empty))"
  using validation_after_resolution [of "[ECOMM_DEVICE_N \<mapsto> Num 300]" 300, THEN conjunct2]
    validation_after_resolution [of Map.empty 0, THEN conjunct2]
  by (simp add: names_distinct representable_def)

section \<open>Repeated inclusion\<close>

text \<open>
  C7. Processing the header a second or any further time in the same translation unit is
  a no-op, directly after the first time or after any other directives of the fragment:
  the state, and with it the diagnostics and every macro, stays as it was.  No redefinition
  is diagnosed and no validation failure is repeated.
\<close>

theorem reinclusion_is_noop:
  "run config_hpp (run config_hpp s) = run config_hpp s
   \<and> run (config_hpp @ config_hpp) s = run config_hpp s
   \<and> run config_hpp (run mid (run config_hpp s)) = run mid (run config_hpp s)
   \<and> diags (run (config_hpp @ mid @ config_hpp) s) = diags (run (config_hpp @ mid) s)
   \<and> macros (run (config_hpp @ mid @ config_hpp) s) = macros (run (config_hpp @ mid) s)"
proof -
  have once: "run config_hpp (run config_hpp s) = run config_hpp s"
    by (rule include_guarded) (rule guard_defined_after)
  have later: "run config_hpp (run mid (run config_hpp s)) = run mid (run config_hpp s)"
    by (rule include_guarded) (rule defined_preserved(2), rule guard_defined_after)
  show ?thesis
    using once later by (simp add: run_append)
qed

section \<open>The protocol version is fixed\<close>

text \<open>
  C9. The check of line 34 cannot fail in the header as it stands.  Directly after line 33
  the check changes nothing, whatever the state before; so no build reports the
  protocol-version message, and what the header adds to the diagnostics of a state is what
  the build from that state's macros reports.
\<close>

theorem version_check_never_fails:
  "exec version_assert (exec (Define ECOMM_PROTOCOL_VERSION (Num 0)) s)
     = exec (Define ECOMM_PROTOCOL_VERSION (Num 0)) s
   \<and> StaticAssertFailed version_msg \<notin> set (diags (build m))
   \<and> NotAConstantExpression version_msg \<notin> set (diags (build m))
   \<and> diags (run config_hpp s) = diags s @ diags (build (macros s))"
proof -
  have a: "exec version_assert (exec (Define ECOMM_PROTOCOL_VERSION (Num 0)) s)
     = exec (Define ECOMM_PROTOCOL_VERSION (Num 0)) s"
    by (auto simp add: version_assert_def report_def split: option.splits)
  have b: "StaticAssertFailed version_msg \<notin> set (diags (build m))
     \<and> NotAConstantExpression version_msg \<notin> set (diags (build m))"
    by (cases "m ECOMM_PROTOCOL_CONFIG_HPP")
      (auto simp add: build_diags build_guarded start_def msgs_distinct
        split: option.splits body.splits)
  have c: "diags (run config_hpp s) = diags s @ diags (build (macros s))"
    by (subst include_from_state) simp
  show ?thesis
    using a b c by simp
qed

text \<open>
  C10, as stated, does not hold.  With \<open>ECOMM_PROTOCOL_VERSION\<close> pre-defined as 2 the
  build does not fail: line 33 redefines the macro, which is diagnosed with a warning and
  no error, and the build produces its artifact, with the version 0.
\<close>

theorem version_predefinition_counterexample:
  "build_result (build [ECOMM_PROTOCOL_VERSION \<mapsto> Num 2])
     = Inr (macros (build [ECOMM_PROTOCOL_VERSION \<mapsto> Num 2]))
   \<and> diags (build [ECOMM_PROTOCOL_VERSION \<mapsto> Num 2]) = [MacroRedefined ECOMM_PROTOCOL_VERSION]
   \<and> errors (build [ECOMM_PROTOCOL_VERSION \<mapsto> Num 2]) = []
   \<and> macros (build [ECOMM_PROTOCOL_VERSION \<mapsto> Num 2]) ECOMM_PROTOCOL_VERSION = Some (Num 0)"
  by (simp add: build_result_def build_errors build_diags build_macros names_distinct)

text \<open>
  C10, amended.  Line 33 defines \<open>ECOMM_PROTOCOL_VERSION\<close> with no presence guard around
  it.  A consumer that has pre-defined it to a value other than 0 gets a redefinition
  warning and no override: the errors of the build are those of the build without the
  pre-definition, and the value in force after the header is 0, not the consumer's.
  Every build that processes the header, and so every successful one, resolves the
  protocol version to exactly 0.
\<close>

theorem version_not_overridable:
  assumes "m ECOMM_PROTOCOL_CONFIG_HPP = None"
  shows "hd config_body = Define ECOMM_PROTOCOL_VERSION (Num 0)
     \<and> (v \<noteq> 0 \<longrightarrow>
          MacroRedefined ECOMM_PROTOCOL_VERSION \<in> set (diags (build (m(ECOMM_PROTOCOL_VERSION \<mapsto> Num v))))
          \<and> severity_of (MacroRedefined ECOMM_PROTOCOL_VERSION) = Warning
          \<and> errors (build (m(ECOMM_PROTOCOL_VERSION \<mapsto> Num v)))
              = errors (build (m(ECOMM_PROTOCOL_VERSION := None)))
          \<and> macros (build (m(ECOMM_PROTOCOL_VERSION \<mapsto> Num v))) ECOMM_PROTOCOL_VERSION = Some (Num 0))
     \<and> macros (build m) ECOMM_PROTOCOL_VERSION = Some (Num 0)
     \<and> (build_result (build m) = Inr t \<longrightarrow> t ECOMM_PROTOCOL_VERSION = Some (Num 0))"
proof -
  let ?m = "m(ECOMM_PROTOCOL_VERSION \<mapsto> Num v)"
  let ?n = "m(ECOMM_PROTOCOL_VERSION := None)"
  have g: "?m ECOMM_PROTOCOL_CONFIG_HPP = None" "?n ECOMM_PROTOCOL_CONFIG_HPP = None"
    using assms by (simp_all add: names_distinct)
  have d: "MacroRedefined ECOMM_PROTOCOL_VERSION \<in> set (diags (build ?m))" if "v \<noteq> 0"
    using that g by (simp add: build_diags names_distinct)
  have e: "errors (build ?m) = errors (build ?n)"
    using g by (simp add: build_errors names_distinct)
  have r: "macros (build ?m) ECOMM_PROTOCOL_VERSION = Some (Num 0)"
    using g by (simp add: build_macros names_distinct)
  have r': "macros (build m) ECOMM_PROTOCOL_VERSION = Some (Num 0)"
    using assms by (simp add: build_macros names_distinct)
  have t: "t = macros (build m)" if "build_result (build m) = Inr t"
    using that by (simp add: build_result_def split: if_splits)
  have h: "hd config_body = Define ECOMM_PROTOCOL_VERSION (Num 0)"
    by (simp add: config_body_def)
  from h d e r r' t show ?thesis
    by auto
qed

text \<open>The pre-definition 2, and the build with no overrides.\<close>

theorem version_not_overridable_witness:
  "MacroRedefined ECOMM_PROTOCOL_VERSION \<in> set (diags (build [ECOMM_PROTOCOL_VERSION \<mapsto> Num 2]))
   \<and> errors (build [ECOMM_PROTOCOL_VERSION \<mapsto> Num 2]) = []
   \<and> macros (build [ECOMM_PROTOCOL_VERSION \<mapsto> Num 2]) ECOMM_PROTOCOL_VERSION = Some (Num 0)
   \<and> macros (build Map.empty) ECOMM_PROTOCOL_VERSION = Some (Num 0)"
  using version_not_overridable [where m = Map.empty and v = 2 and t = "macros (build Map.empty)"]
  by (simp add: build_errors)

text \<open>
  Including twice with the illegal device count 0 reports the range violation once;
  including twice with no overrides reports nothing and resolves what one inclusion does.
\<close>

theorem reinclusion_is_noop_witness:
  "diags (run (config_hpp @ config_hpp) (start [ECOMM_DEVICE_N \<mapsto> Num 0])) = [StaticAssertFailed device_msg]
   \<and> macros (run (config_hpp @ config_hpp) (start Map.empty)) = macros (build Map.empty)
   \<and> diags (run (config_hpp @ config_hpp) (start Map.empty)) = []"
  using reinclusion_is_noop [of "start [ECOMM_DEVICE_N \<mapsto> Num 0]" "[]"]
    reinclusion_is_noop [of "start Map.empty" "[]"]
  by (simp add: build_def [symmetric] build_diags names_distinct)

text \<open>Even with the protocol version pre-defined as 7 the range check stays silent.\<close>

theorem version_check_never_fails_witness:
  "StaticAssertFailed version_msg \<notin> set (diags (build [ECOMM_PROTOCOL_VERSION \<mapsto> Num 7]))
   \<and> diags (build [ECOMM_PROTOCOL_VERSION \<mapsto> Num 7]) = [MacroRedefined ECOMM_PROTOCOL_VERSION]"
  using version_check_never_fails [of "start Map.empty" "[ECOMM_PROTOCOL_VERSION \<mapsto> Num 7]"]
  by (simp add: build_diags names_distinct)

section \<open>Definitions after the header\<close>

text \<open>
  C8, as stated, does not hold.  A translation unit that defines \<open>ECOMM_DEVICE_N\<close> as 5
  after the header does not end as the one without that definition does: the definition
  is diagnosed as a redefinition and 5 is the value in force afterwards, where the unit
  without it ends with the value 2 and no diagnostics.
\<close>

theorem late_override_counterexample:
  "run (config_hpp @ [Define ECOMM_DEVICE_N (Num 5)]) (start Map.empty) \<noteq> run config_hpp (start Map.empty)
   \<and> macros (run (config_hpp @ [Define ECOMM_DEVICE_N (Num 5)]) (start Map.empty)) ECOMM_DEVICE_N = Some (Num 5)
   \<and> diags (run (config_hpp @ [Define ECOMM_DEVICE_N (Num 5)]) (start Map.empty)) = [MacroRedefined ECOMM_DEVICE_N]
   \<and> macros (run config_hpp (start Map.empty)) ECOMM_DEVICE_N = Some (Num 2)
   \<and> diags (run config_hpp (start Map.empty)) = []"
proof -
  have m: "macros (build Map.empty) ECOMM_DEVICE_N = Some (Num 2)"
    by (simp add: build_macros)
  have d: "diags (build Map.empty) = []"
    by (simp add: build_diags)
  have m': "macros (exec (Define ECOMM_DEVICE_N (Num 5)) (build Map.empty)) ECOMM_DEVICE_N = Some (Num 5)"
    using m by (simp add: report_def)
  have d': "diags (exec (Define ECOMM_DEVICE_N (Num 5)) (build Map.empty)) = [MacroRedefined ECOMM_DEVICE_N]"
    using m d by (simp add: report_def)
  have "exec (Define ECOMM_DEVICE_N (Num 5)) (build Map.empty) \<noteq> build Map.empty"
    using d d' by auto
  with m d m' d' show ?thesis
    by (simp add: run_append build_def)
qed

text \<open>
  C8, amended.  A definition of \<open>ECOMM_BOARD_ID\<close> or \<open>ECOMM_DEVICE_N\<close> that comes only
  after the header takes no part in the header's resolution and validation: at the end
  of the header the constant is the built-in default, the later definition is processed
  on that state, and the device-count check is not evaluated again, whatever the later
  value.  The later definition is a redefinition of a macro the header has defined, and
  is diagnosed as such when its value differs from the default.
\<close>

theorem late_override_outside_resolution:
  assumes "macros s ECOMM_PROTOCOL_CONFIG_HPP = None"
  shows "(macros s ECOMM_BOARD_ID = None \<longrightarrow> macros (run config_hpp s) ECOMM_BOARD_ID = Some (Num 0))
     \<and> (macros s ECOMM_DEVICE_N = None \<longrightarrow> macros (run config_hpp s) ECOMM_DEVICE_N = Some (Num 2))
     \<and> run (config_hpp @ [Define ECOMM_BOARD_ID (Num b)]) s = exec (Define ECOMM_BOARD_ID (Num b)) (run config_hpp s)
     \<and> run (config_hpp @ [Define ECOMM_DEVICE_N (Num n)]) s = exec (Define ECOMM_DEVICE_N (Num n)) (run config_hpp s)
     \<and> (macros s ECOMM_DEVICE_N = None \<longrightarrow>
          (StaticAssertFailed device_msg \<in> set (diags (run (config_hpp @ [Define ECOMM_DEVICE_N (Num n)]) s)))
            = (StaticAssertFailed device_msg \<in> set (diags s)))
     \<and> (macros s ECOMM_BOARD_ID = None \<longrightarrow> b \<noteq> 0 \<longrightarrow>
          MacroRedefined ECOMM_BOARD_ID \<in> set (diags (run (config_hpp @ [Define ECOMM_BOARD_ID (Num b)]) s)))
     \<and> (macros s ECOMM_DEVICE_N = None \<longrightarrow> n \<noteq> 2 \<longrightarrow>
          MacroRedefined ECOMM_DEVICE_N \<in> set (diags (run (config_hpp @ [Define ECOMM_DEVICE_N (Num n)]) s)))"
proof -
  have m: "macros (run config_hpp s) = macros (build (macros s))"
    by (subst include_from_state) simp
  have d: "diags (run config_hpp s) = diags s @ diags (build (macros s))"
    by (subst include_from_state) simp
  have b0: "macros (run config_hpp s) ECOMM_BOARD_ID = Some (Num 0)" if "macros s ECOMM_BOARD_ID = None"
    using that assms by (simp add: m build_macros names_distinct)
  have d2: "macros (run config_hpp s) ECOMM_DEVICE_N = Some (Num 2)" if "macros s ECOMM_DEVICE_N = None"
    using that assms by (simp add: m build_macros names_distinct)
  have chk: "(StaticAssertFailed device_msg \<in> set (diags (exec (Define ECOMM_DEVICE_N (Num n)) (run config_hpp s))))
      = (StaticAssertFailed device_msg \<in> set (diags s))" if "macros s ECOMM_DEVICE_N = None"
    using that assms d2 [OF that] by (auto simp add: d build_diags report_def)
  have rb: "MacroRedefined ECOMM_BOARD_ID \<in> set (diags (exec (Define ECOMM_BOARD_ID (Num b)) (run config_hpp s)))"
    if "macros s ECOMM_BOARD_ID = None" "b \<noteq> 0"
    using that b0 by (simp add: report_def)
  have rd: "MacroRedefined ECOMM_DEVICE_N \<in> set (diags (exec (Define ECOMM_DEVICE_N (Num n)) (run config_hpp s)))"
    if "macros s ECOMM_DEVICE_N = None" "n \<noteq> 2"
    using that d2 by (simp add: report_def)
  show ?thesis
    using b0 d2 chk rb rd by (simp add: run_append)
qed

text \<open>The late definitions 7 for the board identifier and 300 for the device count.\<close>

theorem late_override_outside_resolution_witness:
  "macros (run config_hpp (start Map.empty)) ECOMM_BOARD_ID = Some (Num 0)
   \<and> macros (run config_hpp (start Map.empty)) ECOMM_DEVICE_N = Some (Num 2)
   \<and> StaticAssertFailed device_msg
        \<notin> set (diags (run (config_hpp @ [Define ECOMM_DEVICE_N (Num 300)]) (start Map.empty)))
   \<and> MacroRedefined ECOMM_DEVICE_N
        \<in> set (diags (run (config_hpp @ [Define ECOMM_DEVICE_N (Num 300)]) (start Map.empty)))
   \<and> MacroRedefined ECOMM_BOARD_ID
        \<in> set (diags (run (config_hpp @ [Define ECOMM_BOARD_ID (Num 7)]) (start Map.empty)))"
proof -
  have g: "macros (start Map.empty) ECOMM_PROTOCOL_CONFIG_HPP = None"
    by (simp add: start_def)
  have e: "macros (start Map.empty) ECOMM_BOARD_ID = None" "macros (start Map.empty) ECOMM_DEVICE_N = None"
    "diags (start Map.empty) = []"
    by (simp_all add: start_def)
  from late_override_outside_resolution [OF g, of 7 300] e show ?thesis
    by (auto simp del: exec.simps)
qed

end
